theory Spec2Isabelle
  imports Complex_Main
begin

section \<open>Python values shared by the two modules\<close>

text \<open>
  How an object fares when pickle carries it from a worker process to the caller: it
  arrives as a copy, it cannot be pickled in the worker, or it is pickled but the copy
  cannot be rebuilt in the caller (an exception whose class takes other arguments than
  the ones the exception records).
\<close>

datatype transport = Arrives | NotPickled | NotRebuilt

text \<open>
  Exceptions are values. \<open>ValueError\<close> is what numpy raises (\<open>array_split\<close> with a
  section count that is not positive, \<open>concatenate\<close> on zero-dimensional arrays or on
  an empty sequence), \<open>AssertionError\<close> carries the message of the failing
  \<^verbatim>\<open>assert\<close>, \<open>TypeError\<close> is what Python raises when \<^verbatim>\<open>>\<close> compares values
  that have no order. \<open>PicklingError\<close> stands for the error pickle raises when a
  process pool cannot send a task to a worker (PicklingError for a lambda,
  AttributeError for a function defined inside another), and \<open>MaybeEncodingError\<close> is
  what the pool raises when a worker cannot send back what the task returned or
  raised. \<open>Raised t e\<close> is any other exception \<open>e\<close> that code supplied by the caller
  raises, of a class on which pickle fares as \<open>t\<close> says.
  \<open>Remote e\<close> is the copy of \<open>e\<close> that a process pool raises in the caller when a
  worker raised \<open>e\<close>: a new object of the same class and arguments whose
  \<^verbatim>\<open>__cause__\<close> is the traceback of the worker.
\<close>

datatype 'e exception =
    ValueError
  | TypeError
  | AssertionError string
  | NotImplementedError string
  | PicklingError
  | MaybeEncodingError
  | Raised transport 'e
  | Remote "'e exception"

text \<open>
  \<^verbatim>\<open>class Options(TypedDict)\<close> of base.py: the three coefficients.
\<close>

record 'f Options =
  c1 :: 'f
  c2 :: 'f
  w :: 'f

section \<open>pyswarms/backend/operators.py\<close>

subsection \<open>The swarm\<close>

text \<open>
  Modelled from the spec: the class \<^verbatim>\<open>Swarm\<close> (pyswarms.backend.swarms) is imported
  by operators.py but is not among the sources. Its attributes are those of the spec's
  data model; \<open>dimensions\<close> is the attribute that \<^verbatim>\<open>compute_pbest\<close> reads
  (\<^verbatim>\<open>swarm.dimensions\<close>, "Infer dimensions from positions"), the number D of columns
  of \<open>position\<close>.

  A two-dimensional array is the list of its rows, a one-dimensional array a list.
  The entries of positions and velocities have type \<open>'a\<close> and costs have type \<open>'c\<close>:
  the operators use nothing of them but \<open>+\<close> on entries and \<open><\<close> on costs, so the
  carrier is left open (floats that are not NaN, ordered as numbers, are one instance).
\<close>

record ('a, 'c) Swarm =
  position :: "'a list list"
  velocity :: "'a list list"
  current_cost :: "'c list"
  pbest_pos :: "'a list list"
  pbest_cost :: "'c list"
  best_pos :: "'a list"
  best_cost :: "'c"
  options :: "'c Options"
  dimensions :: nat

text \<open>
  The shapes numpy arrays carry: an N by D matrix has N rows of D entries each.
\<close>

definition has_shape :: "nat \<Rightarrow> nat \<Rightarrow> 'x list list \<Rightarrow> bool" where
  "has_shape N D m = (length m = N \<and> list_all (\<lambda>row. length row = D) m)"

text \<open>
  The input of \<^verbatim>\<open>compute_pbest\<close>: costs of length N, positions of shape (N, D).
\<close>

definition pbest_shapes :: "nat \<Rightarrow> nat \<Rightarrow> ('a, 'c) Swarm \<Rightarrow> bool" where
  "pbest_shapes N D swarm =
     (length (current_cost swarm) = N \<and> length (pbest_cost swarm) = N \<and>
      has_shape N D (Swarm.position swarm) \<and> has_shape N D (pbest_pos swarm) \<and>
      Swarm.dimensions swarm = D)"

subsection \<open>The numpy operations the operators call\<close>

text \<open>
  Each is the elementwise operation of numpy on arrays of one shape, which is where
  the operators are specified. On arrays of different shapes numpy broadcasts or
  raises; no theorem below is about such inputs (each assumes the shapes).
\<close>

definition np_less :: "'c::ord list \<Rightarrow> 'c list \<Rightarrow> bool list" where
  "np_less xs ys = map2 (\<lambda>x y. x < y) xs ys"

text \<open>\<^verbatim>\<open>np.repeat(a[:, np.newaxis], d, axis=1)\<close>: row i is d copies of a[i].\<close>

definition np_repeat_columns :: "'x list \<Rightarrow> nat \<Rightarrow> 'x list list" where
  "np_repeat_columns a d = map (replicate d) a"

definition np_invert :: "bool list \<Rightarrow> bool list" where
  "np_invert a = map Not a"

definition np_invert2 :: "bool list list \<Rightarrow> bool list list" where
  "np_invert2 a = map np_invert a"

definition np_where :: "bool list \<Rightarrow> 'x list \<Rightarrow> 'x list \<Rightarrow> 'x list" where
  "np_where cond xs ys = map (\<lambda>(c, x, y). if c then x else y) (zip cond (zip xs ys))"

definition np_where2 :: "bool list list \<Rightarrow> 'x list list \<Rightarrow> 'x list list \<Rightarrow> 'x list list" where
  "np_where2 cond xs ys = map (\<lambda>(c, x, y). np_where c x y) (zip cond (zip xs ys))"

definition np_add2 :: "'a::plus list list \<Rightarrow> 'a list list \<Rightarrow> 'a list list" where
  "np_add2 xs ys = map2 (\<lambda>x y. map2 (\<lambda>a b. a + b) x y) xs ys"

subsection \<open>compute\_pbest\<close>

text \<open>
  The operators are written in state-passing style: each returns its result together
  with the swarm as the call leaves it. No statement of \<^verbatim>\<open>compute_pbest\<close> assigns to
  an attribute of the swarm or writes into one of its arrays (\<^verbatim>\<open>np.repeat\<close> and
  \<^verbatim>\<open>np.where\<close> build new arrays).
\<close>

definition compute_pbest ::
  "('a, 'c::ord) Swarm \<Rightarrow> ('a list list \<times> 'c list) \<times> ('a, 'c) Swarm" where
  "compute_pbest swarm =
     (let dimensions = Swarm.dimensions swarm;
          mask_cost = np_less (current_cost swarm) (pbest_cost swarm);
          mask_pos = np_repeat_columns mask_cost dimensions;
          new_pbest_pos = np_where2 (np_invert2 mask_pos) (pbest_pos swarm) (Swarm.position swarm);
          new_pbest_cost = np_where (np_invert mask_cost) (pbest_cost swarm) (current_cost swarm)
      in ((new_pbest_pos, new_pbest_cost), swarm))"

subsection \<open>compute\_position\<close>

text \<open>
  \<^verbatim>\<open>bh\<close> is a callable object of the class \<^verbatim>\<open>BoundaryHandler\<close>, whose code is not
  among the sources: it is a parameter. It is called with the tentative position and
  the bounds; being an object supplied by the caller it may hold a reference to the
  swarm and write to it, so it is a state transformer on the swarm.
  \<^verbatim>\<open>swarm.position.copy() + swarm.velocity\<close> builds a new array.
\<close>

definition compute_position ::
  "('a::plus, 'c) Swarm \<Rightarrow> 'b option \<Rightarrow>
   ('a list list \<Rightarrow> 'b \<Rightarrow> ('a, 'c) Swarm \<Rightarrow> 'a list list \<times> ('a, 'c) Swarm) \<Rightarrow>
   'a list list \<times> ('a, 'c) Swarm" where
  "compute_position swarm bounds bh =
     (let temp_position = np_add2 (Swarm.position swarm) (Swarm.velocity swarm)
      in case bounds of
           Some b \<Rightarrow> bh temp_position b swarm
         | None \<Rightarrow> (temp_position, swarm))"

subsection \<open>compute\_objective\_function\<close>

text \<open>
  What an objective function returns: a one-dimensional array, or a zero-dimensional
  one (a scalar), which \<^verbatim>\<open>np.concatenate\<close> refuses.
\<close>

datatype 'c ndarray = Scalar 'c | Array "'c list"

text \<open>
  \<^verbatim>\<open>multiprocessing.pool.Pool\<close>; the operator reads its number of worker processes,
  \<^verbatim>\<open>pool._processes\<close>. The constructor of \<^verbatim>\<open>Pool\<close> refuses a number below 1.
\<close>

record Pool =
  processes :: nat

text \<open>
  \<^verbatim>\<open>np.array_split(ary, Nsections)\<close> along axis 0, as numpy's shape\_base.py computes
  it: \<^verbatim>\<open>Neach_section, extras = divmod(Ntotal, Nsections)\<close>, the section sizes are
  \<^verbatim>\<open>extras * [Neach_section + 1] + (Nsections - extras) * [Neach_section]\<close>, the
  division points are the cumulative sums of \<^verbatim>\<open>[0] + section_sizes\<close>, and section i
  is the slice \<^verbatim>\<open>ary[div_points[i] : div_points[i + 1]]\<close>.
\<close>

definition section_sizes :: "nat \<Rightarrow> nat \<Rightarrow> nat list" where
  "section_sizes Ntotal Nsections =
     (let Neach_section = Ntotal div Nsections;
          extras = Ntotal mod Nsections
      in replicate extras (Neach_section + 1) @ replicate (Nsections - extras) Neach_section)"

fun cumsum_from :: "nat \<Rightarrow> nat list \<Rightarrow> nat list" where
  "cumsum_from acc [] = []"
| "cumsum_from acc (x # xs) = (acc + x) # cumsum_from (acc + x) xs"

definition cumsum :: "nat list \<Rightarrow> nat list" where
  "cumsum xs = cumsum_from 0 xs"

text \<open>The slice \<^verbatim>\<open>xs[st:end]\<close> for \<open>0 \<le> st\<close>; Python cuts it at the end of \<open>xs\<close>.\<close>

definition py_slice :: "nat \<Rightarrow> nat \<Rightarrow> 'x list \<Rightarrow> 'x list" where
  "py_slice st end xs = take (end - st) (drop st xs)"

definition np_array_split :: "'x list \<Rightarrow> nat \<Rightarrow> 'e exception + 'x list list" where
  "np_array_split ary Nsections =
     (if Nsections = 0 then Inl ValueError
      else
        let Ntotal = length ary;
            div_points = cumsum (0 # section_sizes Ntotal Nsections)
        in Inr (map (\<lambda>i. py_slice (div_points ! i) (div_points ! (i + 1)) ary) [0..<Nsections]))"

text \<open>
  What the workers of a pool compute for \<^verbatim>\<open>pool.map(func, blocks)\<close>: \<open>func\<close> is called
  on every block, and the results are put in the order of the blocks. When several
  calls raise, which of their exceptions the pool reports depends on the timing of the
  workers; the model takes the first in block order, and no theorem below depends on
  that choice.
\<close>

fun run_tasks :: "('x \<Rightarrow> 'e + 'y) \<Rightarrow> 'x list \<Rightarrow> 'e + 'y list" where
  "run_tasks func [] = Inr []"
| "run_tasks func (x # xs) =
     (case func x of
        Inl e \<Rightarrow> Inl e
      | Inr y \<Rightarrow> (case run_tasks func xs of Inl e \<Rightarrow> Inl e | Inr ys \<Rightarrow> Inr (y # ys)))"

text \<open>
  What the pool does with an exception a worker raised. The worker pickles it and the
  caller rebuilds it: the caller gets the copy \<open>Remote e\<close>; when it cannot be pickled
  the caller gets MaybeEncodingError; when the copy cannot be rebuilt the thread of the
  pool that reads the results dies and \<^verbatim>\<open>pool.map\<close> never returns, which is the
  value \<open>None\<close>.
\<close>

fun fate :: "'e exception \<Rightarrow> transport" where
  "fate (Raised t e) = t"
| "fate (Remote e) = fate e"
| "fate ValueError = Arrives"
| "fate TypeError = Arrives"
| "fate (AssertionError m) = Arrives"
| "fate (NotImplementedError m) = Arrives"
| "fate PicklingError = Arrives"
| "fate MaybeEncodingError = Arrives"

definition deliver :: "'e exception \<Rightarrow> ('e exception + 'y) option" where
  "deliver e =
     (case fate e of
        Arrives \<Rightarrow> Some (Inl (Remote e))
      | NotPickled \<Rightarrow> Some (Inl MaybeEncodingError)
      | NotRebuilt \<Rightarrow> None)"

text \<open>
  \<^verbatim>\<open>pool.map(func, blocks)\<close> of \<^verbatim>\<open>multiprocessing.pool.Pool\<close>. The pool pickles
  \<open>func\<close> with every task it sends to a worker; when \<open>func\<close> cannot be pickled no task
  is run and \<^verbatim>\<open>map\<close> raises the error of pickle in the caller. Otherwise the workers
  run the tasks, and \<^verbatim>\<open>map\<close> returns their results in block order or delivers the
  exception of a task that raised. The results are arrays of numbers, which pickle
  carries unchanged. The result \<open>None\<close> is a call that does not return.
\<close>

definition pool_map ::
  "bool \<Rightarrow> ('x \<Rightarrow> 'e exception + 'y) \<Rightarrow> 'x list \<Rightarrow> ('e exception + 'y list) option" where
  "pool_map func_picklable func blocks =
     (if \<not> func_picklable then Some (Inl PicklingError)
      else case run_tasks func blocks of
             Inl e \<Rightarrow> deliver e
           | Inr results \<Rightarrow> Some (Inr results))"

text \<open>
  \<^verbatim>\<open>np.concatenate(results)\<close>: joins one-dimensional arrays in the order given, and
  raises ValueError on an empty sequence and on a zero-dimensional array.
\<close>

fun is_Array :: "'c ndarray \<Rightarrow> bool" where
  "is_Array (Array xs) = True"
| "is_Array (Scalar x) = False"

fun entries :: "'c ndarray \<Rightarrow> 'c list" where
  "entries (Array xs) = xs"
| "entries (Scalar x) = [x]"

definition np_concatenate :: "'c ndarray list \<Rightarrow> 'e exception + 'c ndarray" where
  "np_concatenate arrays =
     (if arrays = [] then Inl ValueError
      else if list_all is_Array arrays then Inr (Array (concat (map entries arrays)))
      else Inl ValueError)"

text \<open>
  \<^verbatim>\<open>objective_func\<close> is the caller's function, a Python callable: \<open>call\<close> is what it
  computes from the keyword arguments and a matrix (an array, or an exception), and
  \<open>picklable kwargs\<close> says whether pickle can send
  \<^verbatim>\<open>partial(objective_func, **kwargs)\<close> to another process. A function defined at the
  top level of a module can be sent; a lambda or a function defined inside another
  function cannot, whatever it computes; the keyword arguments must be picklable too.
\<close>

record ('k, 'a, 'e, 'r) objective =
  call :: "'k \<Rightarrow> 'a list list \<Rightarrow> 'e exception + 'r ndarray"
  picklable :: "'k \<Rightarrow> bool"

text \<open>
  The result \<open>None\<close> is a call that does not return; \<open>Some (Inl e)\<close> raises \<open>e\<close> and
  \<open>Some (Inr costs)\<close> returns \<open>costs\<close>.
\<close>

definition compute_objective_function ::
  "('a, 'c) Swarm \<Rightarrow> ('k, 'a, 'e, 'r) objective \<Rightarrow> Pool option \<Rightarrow> 'k \<Rightarrow>
   ('e exception + 'r ndarray) option" where
  "compute_objective_function swarm objective_func pool kwargs =
     (case pool of
        None \<Rightarrow> Some (call objective_func kwargs (Swarm.position swarm))
      | Some p \<Rightarrow>
          (case np_array_split (Swarm.position swarm) (processes p) of
             Inl e \<Rightarrow> Some (Inl e)
           | Inr blocks \<Rightarrow>
               (case pool_map (picklable objective_func kwargs) (call objective_func kwargs) blocks of
                  None \<Rightarrow> None
                | Some (Inl e) \<Rightarrow> Some (Inl e)
                | Some (Inr results) \<Rightarrow> Some (np_concatenate results))))"


section \<open>pyswarms/base/base.py\<close>

subsection \<open>Values and records\<close>

text \<open>
  The values \<^verbatim>\<open>ftol_iter\<close> can be given as: Python is dynamically typed, so the
  annotation \<^verbatim>\<open>int\<close> does not keep a float, \<^verbatim>\<open>None\<close> or a string out.
  (\<^verbatim>\<open>bool\<close> is a subclass of \<^verbatim>\<open>int\<close> in Python; \<^verbatim>\<open>True\<close> is the integer 1 there
  and is not a separate case here.)
\<close>

datatype pyvalue = PyInt int | PyFloat real | PyNone | PyStr string

text \<open>\<^verbatim>\<open>value > 0\<close>: numbers compare, \<^verbatim>\<open>None\<close> and strings raise TypeError.\<close>

fun py_gt_zero :: "pyvalue \<Rightarrow> 'e exception + bool" where
  "py_gt_zero (PyInt n) = Inr (0 < n)"
| "py_gt_zero (PyFloat x) = Inr (0 < x)"
| "py_gt_zero PyNone = Inl TypeError"
| "py_gt_zero (PyStr s) = Inl TypeError"

text \<open>\<^verbatim>\<open>isinstance(value, int)\<close>.\<close>

fun isinstance_int :: "pyvalue \<Rightarrow> bool" where
  "isinstance_int (PyInt n) = True"
| "isinstance_int (PyFloat x) = False"
| "isinstance_int PyNone = False"
| "isinstance_int (PyStr s) = False"

text \<open>
  \<^verbatim>\<open>class ToHistory(NamedTuple)\<close>. \<open>'f\<close> is the type of floats, \<open>'m\<close> that of the
  position and velocity matrices, which base.py stores and never inspects.
\<close>

record ('f, 'm) ToHistory =
  best_cost :: 'f
  mean_pbest_cost :: 'f
  mean_neighbor_cost :: 'f
  position :: 'm
  velocity :: 'm

text \<open>
  An instance of \<^verbatim>\<open>BaseSwarmOptimizer\<close>: the attributes \<^verbatim>\<open>__init__\<close> assigns, the
  five history lists and the swarm. \<open>'k\<close> is the type of the velocity clamp and
  \<open>'s\<close> that of the swarm (\<^verbatim>\<open>Clamp\<close> and \<^verbatim>\<open>Swarm\<close> are declared in modules that are
  not among the sources; base.py stores them and never inspects them). The swarm is
  \<open>None\<close> until \<^verbatim>\<open>_init_swarm\<close> assigns it.

  The class also declares the five lists as class attributes; \<^verbatim>\<open>reset\<close>, which
  \<^verbatim>\<open>__init__\<close> calls, gives every instance its own five lists, and the record is the
  state of one instance as attribute lookup shows it.
\<close>

record ('f, 'm, 'k, 's) BaseSwarmOptimizer =
  n_particles :: int
  dimensions :: int
  velocity_clamp :: "'k option"
  swarm_size :: "int \<times> int"
  options :: "'f Options"
  init_pos :: "'m option"
  ftol :: 'f
  ftol_iter :: pyvalue
  cost_history :: "'f list"
  mean_pbest_history :: "'f list"
  mean_neighbor_history :: "'f list"
  pos_history :: "'m list"
  velocity_history :: "'m list"
  swarm :: "'s option"

subsection \<open>reset and \_init\_swarm\<close>

text \<open>
  \<^verbatim>\<open>_init_swarm\<close> is abstract: every instance belongs to a subclass that overrides
  it, and no override is among the sources. It is a parameter \<open>init_swarm\<close>, a method
  that may write any attribute of the instance and may raise. The body the base class
  gives it raises NotImplementedError.
\<close>

definition base_init_swarm ::
  "('f, 'm, 'k, 's) BaseSwarmOptimizer \<Rightarrow> 'e exception + ('f, 'm, 'k, 's) BaseSwarmOptimizer" where
  "base_init_swarm self = Inl (NotImplementedError ''SwarmBase::init_swarm()'')"

definition reset ::
  "(('f, 'm, 'k, 's) BaseSwarmOptimizer \<Rightarrow> 'e exception + ('f, 'm, 'k, 's) BaseSwarmOptimizer) \<Rightarrow>
   ('f, 'm, 'k, 's) BaseSwarmOptimizer \<Rightarrow> 'e exception + ('f, 'm, 'k, 's) BaseSwarmOptimizer" where
  "reset init_swarm self =
     (let self = self\<lparr>cost_history := []\<rparr>;
          self = self\<lparr>mean_pbest_history := []\<rparr>;
          self = self\<lparr>mean_neighbor_history := []\<rparr>;
          self = self\<lparr>pos_history := []\<rparr>;
          self = self\<lparr>velocity_history := []\<rparr>
      in init_swarm self)"

text \<open>
  What the spec says of an override ("reinitializes the swarm ... preserving configured
  hyperparameters"): when it returns, it has written no attribute but \<open>swarm\<close>.
\<close>

definition writes_swarm_only ::
  "(('f, 'm, 'k, 's) BaseSwarmOptimizer \<Rightarrow> 'e exception + ('f, 'm, 'k, 's) BaseSwarmOptimizer) \<Rightarrow> bool" where
  "writes_swarm_only init_swarm =
     (\<forall>self self'. init_swarm self = Inr self' \<longrightarrow> self' = self\<lparr>swarm := swarm self'\<rparr>)"

subsection \<open>\_\_init\_\_\<close>

text \<open>
  \<open>self\<close> is the new object as \<^verbatim>\<open>__init__\<close> receives it. The \<^verbatim>\<open>assert\<close> evaluates
  \<^verbatim>\<open>ftol_iter > 0\<close> first and \<^verbatim>\<open>isinstance(ftol_iter, int)\<close> only when that is true;
  when the condition is false it raises AssertionError with the message, and the
  exception leaves \<^verbatim>\<open>__init__\<close>, so no instance is returned. (Python run with
  \<^verbatim>\<open>-O\<close> removes assert statements; the model is the interpreter without it.)
\<close>

definition init ::
  "(('f, 'm, 'k, 's) BaseSwarmOptimizer \<Rightarrow> 'e exception + ('f, 'm, 'k, 's) BaseSwarmOptimizer) \<Rightarrow>
   ('f, 'm, 'k, 's) BaseSwarmOptimizer \<Rightarrow> int \<Rightarrow> int \<Rightarrow> 'f Options \<Rightarrow> 'k option \<Rightarrow> 'm option \<Rightarrow>
   'f \<Rightarrow> pyvalue \<Rightarrow> 'e exception + ('f, 'm, 'k, 's) BaseSwarmOptimizer" where
  "init init_swarm self n_particles' dimensions' options' velocity_clamp' init_pos' ftol' ftol_iter' =
     (let self = self\<lparr>n_particles := n_particles'\<rparr>;
          self = self\<lparr>BaseSwarmOptimizer.dimensions := dimensions'\<rparr>;
          self = self\<lparr>velocity_clamp := velocity_clamp'\<rparr>;
          self = self\<lparr>swarm_size := (n_particles', dimensions')\<rparr>;
          self = self\<lparr>BaseSwarmOptimizer.options := options'\<rparr>;
          self = self\<lparr>init_pos := init_pos'\<rparr>;
          self = self\<lparr>ftol := ftol'\<rparr>
      in case py_gt_zero ftol_iter' of
           Inl e \<Rightarrow> Inl e
         | Inr positive \<Rightarrow>
             if \<not> (positive \<and> isinstance_int ftol_iter')
             then Inl (AssertionError ''ftol_iter expects an integer value greater than 0'')
             else reset init_swarm (self\<lparr>ftol_iter := ftol_iter'\<rparr>))"

text \<open>
  The spec's "positive integer", for the comparison with what \<open>init\<close> accepts.
\<close>

fun positive_integer :: "pyvalue \<Rightarrow> bool" where
  "positive_integer (PyInt n) = (0 < n)"
| "positive_integer v = False"

subsection \<open>\_populate\_history\<close>

text \<open>
  \<^verbatim>\<open>list.append\<close> adds one element at the end of the list it is called on. The five
  lists of an instance are five different list objects (\<^verbatim>\<open>reset\<close> creates each with
  its own \<^verbatim>\<open>[]\<close>), so an append to one leaves the others as they are.
\<close>

definition populate_history ::
  "('f, 'm, 'k, 's) BaseSwarmOptimizer \<Rightarrow> ('f, 'm) ToHistory \<Rightarrow> ('f, 'm, 'k, 's) BaseSwarmOptimizer" where
  "populate_history self hist =
     (let self = self\<lparr>cost_history := cost_history self @ [ToHistory.best_cost hist]\<rparr>;
          self = self\<lparr>mean_pbest_history := mean_pbest_history self @ [mean_pbest_cost hist]\<rparr>;
          self = self\<lparr>mean_neighbor_history := mean_neighbor_history self @ [mean_neighbor_cost hist]\<rparr>;
          self = self\<lparr>pos_history := pos_history self @ [ToHistory.position hist]\<rparr>;
          self = self\<lparr>velocity_history := velocity_history self @ [ToHistory.velocity hist]\<rparr>
      in self)"

section \<open>Example inputs\<close>

definition sw0 :: "(int, int) Swarm" where
  "sw0 = \<lparr>Swarm.position = [[1, 2], [3, 4], [5, 6]], Swarm.velocity = [[1, 1], [0, 0], [-1, 2]],
     current_cost = [5, 7, 4], pbest_pos = [[0, 0], [9, 9], [8, 8]], pbest_cost = [6, 7, 3],
     best_pos = [8, 8], Swarm.best_cost = 3, Swarm.options = \<lparr>c1 = 1, c2 = 1, w = 1\<rparr>,
     Swarm.dimensions = 2\<rparr>"




text \<open>The nearest strategy of a boundary handler: every entry is clipped to the bounds.\<close>

definition nearest ::
  "int list list \<Rightarrow> int \<times> int \<Rightarrow> (int, int) Swarm \<Rightarrow> int list list \<times> (int, int) Swarm" where
  "nearest x bounds sw = (map (map (\<lambda>v. max (fst bounds) (min (snd bounds) v))) x, sw)"



text \<open>An optimizer after two iterations, and an override of \<^verbatim>\<open>_init_swarm\<close>.\<close>

type_synonym optimizer0 = "(int, int list list, int \<times> int, (int, int) Swarm) BaseSwarmOptimizer"

definition opt0 :: optimizer0 where
  "opt0 = \<lparr>n_particles = 3, BaseSwarmOptimizer.dimensions = 2, velocity_clamp = None,
     swarm_size = (3, 2), BaseSwarmOptimizer.options = \<lparr>c1 = 1, c2 = 1, w = 1\<rparr>, init_pos = None,
     ftol = 0, ftol_iter = PyInt 1, cost_history = [3, 2], mean_pbest_history = [4, 3],
     mean_neighbor_history = [3, 2], pos_history = [[[1, 2], [3, 4], [5, 6]], [[2, 3], [3, 4], [4, 8]]],
     velocity_history = [[[0, 0], [0, 0], [0, 0]], [[1, 1], [0, 0], [-1, 2]]], swarm = None\<rparr>"

definition create_sw0 :: "optimizer0 \<Rightarrow> string exception + optimizer0" where
  "create_sw0 self = Inr (self\<lparr>swarm := Some sw0\<rparr>)"

definition hist0 :: "(int, int list list) ToHistory" where
  "hist0 = \<lparr>ToHistory.best_cost = 1, mean_pbest_cost = 2, mean_neighbor_cost = 1,
     ToHistory.position = [[2, 3], [3, 4], [4, 5]], ToHistory.velocity = [[0, 0], [0, 0], [0, -3]]\<rparr>"

text \<open>An objective that returns one number for the whole swarm instead of one per particle.\<close>

definition total_cost :: "(unit, int, unit, int) objective" where
  "total_cost = \<lparr>call = (\<lambda>kwargs x. Inr (Scalar (sum_list (map sum_list x)))),
     picklable = (\<lambda>kwargs. True)\<rparr>"

section \<open>Lemmas about the array operations\<close>

subsection \<open>Elementwise selection\<close>

lemma length_np_where:
  "length (np_where cond xs ys) = min (length cond) (min (length xs) (length ys))"
  by (simp add: np_where_def)

lemma nth_np_where:
  "i < length cond \<Longrightarrow> i < length xs \<Longrightarrow> i < length ys \<Longrightarrow>
   np_where cond xs ys ! i = (if cond ! i then xs ! i else ys ! i)"
  by (simp add: np_where_def)

lemma np_where_replicate:
  "length xs = d \<Longrightarrow> length ys = d \<Longrightarrow>
   np_where (replicate d b) xs ys = (if b then xs else ys)"
  by (rule nth_equalityI) (simp_all add: length_np_where nth_np_where)

lemma length_np_where2:
  "length (np_where2 cond xs ys) = min (length cond) (min (length xs) (length ys))"
  by (simp add: np_where2_def)

lemma nth_np_where2:
  "i < length cond \<Longrightarrow> i < length xs \<Longrightarrow> i < length ys \<Longrightarrow>
   np_where2 cond xs ys ! i = np_where (cond ! i) (xs ! i) (ys ! i)"
  by (simp add: np_where2_def)

lemma has_shape_nth: "has_shape N D m \<Longrightarrow> i < N \<Longrightarrow> length (m ! i) = D"
  by (simp add: has_shape_def list_all_length)

lemma has_shapeI: "length m = N \<Longrightarrow> (\<And>i. i < N \<Longrightarrow> length (m ! i) = D) \<Longrightarrow> has_shape N D m"
  by (simp add: has_shape_def list_all_length)

lemma new_pbest_cost_nth:
  fixes sw :: "('a, 'c::linorder) Swarm"
  assumes "pbest_shapes N D sw" "i < N"
  shows "snd (fst (compute_pbest sw)) ! i =
    (if current_cost sw ! i < pbest_cost sw ! i then current_cost sw ! i else pbest_cost sw ! i)"
  using assms
  by (simp add: compute_pbest_def Let_def pbest_shapes_def nth_np_where np_invert_def np_less_def)

lemma new_pbest_pos_nth:
  fixes sw :: "('a, 'c::linorder) Swarm"
  assumes "pbest_shapes N D sw" "i < N"
  shows "fst (fst (compute_pbest sw)) ! i =
    (if current_cost sw ! i < pbest_cost sw ! i then Swarm.position sw ! i else pbest_pos sw ! i)"
  using assms
  by (simp add: compute_pbest_def Let_def pbest_shapes_def nth_np_where2 np_invert2_def np_invert_def
      np_repeat_columns_def np_less_def has_shape_def np_where_replicate list_all_length)

lemma new_pbest_lengths:
  fixes sw :: "('a, 'c::linorder) Swarm"
  assumes "pbest_shapes N D sw"
  shows "length (snd (fst (compute_pbest sw))) = N" "length (fst (fst (compute_pbest sw))) = N"
  using assms
  by (simp_all add: compute_pbest_def Let_def pbest_shapes_def length_np_where length_np_where2 np_invert2_def np_invert_def
      np_repeat_columns_def np_less_def has_shape_def)

subsection \<open>Splitting into row blocks\<close>

lemma length_cumsum_from: "length (cumsum_from a ns) = length ns"
  by (induction ns arbitrary: a) simp_all























subsection \<open>Elementwise sum\<close>

lemma length_np_add2: "length (np_add2 xs ys) = min (length xs) (length ys)"
  by (simp add: np_add2_def)

lemma nth_np_add2:
  "i < length xs \<Longrightarrow> i < length ys \<Longrightarrow> np_add2 xs ys ! i = map2 (\<lambda>a b. a + b) (xs ! i) (ys ! i)"
  by (simp add: np_add2_def)

section \<open>Lemmas about the optimizer\<close>

lemma not_positive_integer_rejected:
  "\<not> positive_integer v \<Longrightarrow> \<exists>e. init init_swarm self n d opts clamp pos tol v = Inl e"
  by (cases v) (simp_all add: init_def Let_def)

lemma positive_integer_accepted:
  "positive_integer v \<Longrightarrow>
   init init_swarm self n d opts clamp pos tol v =
     init_swarm (self\<lparr>n_particles := n, BaseSwarmOptimizer.dimensions := d, velocity_clamp := clamp,
       swarm_size := (n, d), BaseSwarmOptimizer.options := opts, init_pos := pos, ftol := tol,
       ftol_iter := v, cost_history := [], mean_pbest_history := [], mean_neighbor_history := [],
       pos_history := [], velocity_history := []\<rparr>)"
  by (cases v) (simp_all add: init_def reset_def Let_def)

lemma reset_frame:
  assumes "writes_swarm_only init_swarm" and "reset init_swarm self = Inr self'"
  shows "self' = self\<lparr>cost_history := [], mean_pbest_history := [], mean_neighbor_history := [],
       pos_history := [], velocity_history := [], swarm := swarm self'\<rparr>"
proof -
  let ?cleared = "self\<lparr>cost_history := [], mean_pbest_history := [], mean_neighbor_history := [],
       pos_history := [], velocity_history := []\<rparr>"
  have "init_swarm ?cleared = Inr self'"
    using assms(2) by (simp add: reset_def Let_def)
  with assms(1) have "self' = ?cleared\<lparr>swarm := swarm self'\<rparr>"
    unfolding writes_swarm_only_def by blast
  then show ?thesis by simp
qed

lemma create_sw0_ok: "writes_swarm_only create_sw0"
  by (simp add: writes_swarm_only_def create_sw0_def)

lemma reset_calls_override:
  "reset init_swarm self =
     init_swarm (self\<lparr>cost_history := [], mean_pbest_history := [], mean_neighbor_history := [],
       pos_history := [], velocity_history := []\<rparr>)"
  by (simp add: reset_def Let_def)

lemma reset_base_raises:
  "reset base_init_swarm self = Inl (NotImplementedError ''SwarmBase::init_swarm()'')"
  by (simp add: reset_def base_init_swarm_def Let_def)

section \<open>The operators\<close>

text \<open>
  Claim C1. For a swarm whose costs have length N and whose positions have shape
  (N, D), \<^verbatim>\<open>compute_pbest\<close> returns a pair (new\_pbest\_pos, new\_pbest\_cost) of
  these shapes such that for every particle i the new cost is the minimum of the old
  personal best cost and the current cost, and the new position is the current
  position when the current cost is strictly less than the old personal best cost and
  the old personal best position otherwise; on equal costs the old personal best is kept.
\<close>

theorem compute_pbest_spec:
  fixes sw :: "('a, 'c::linorder) Swarm"
  assumes shapes: "pbest_shapes N D sw"
  shows "case fst (compute_pbest sw) of (new_pbest_pos, new_pbest_cost) \<Rightarrow>
     length new_pbest_cost = N \<and> has_shape N D new_pbest_pos \<and>
     (\<forall>i<N. new_pbest_cost ! i = min (pbest_cost sw ! i) (current_cost sw ! i) \<and>
            new_pbest_pos ! i = (if current_cost sw ! i < pbest_cost sw ! i
                                 then Swarm.position sw ! i else pbest_pos sw ! i)) \<and>
     (\<forall>i<N. current_cost sw ! i = pbest_cost sw ! i \<longrightarrow>
            new_pbest_cost ! i = pbest_cost sw ! i \<and> new_pbest_pos ! i = pbest_pos sw ! i)"
proof -
  obtain new_pos new_cost where r: "fst (compute_pbest sw) = (new_pos, new_cost)"
    by (cases "fst (compute_pbest sw)")
  have np: "new_pos = fst (fst (compute_pbest sw))" and nc: "new_cost = snd (fst (compute_pbest sw))"
    using r by simp_all
  have len: "length new_cost = N" "length new_pos = N"
    using new_pbest_lengths [OF shapes] np nc by simp_all
  have cost: "new_cost ! i = min (pbest_cost sw ! i) (current_cost sw ! i)" if "i < N" for i
    using new_pbest_cost_nth [OF shapes that] nc by (auto simp: min_def)
  have pos: "new_pos ! i = (if current_cost sw ! i < pbest_cost sw ! i
                                 then Swarm.position sw ! i else pbest_pos sw ! i)" if "i < N" for i
    using new_pbest_pos_nth [OF shapes that] np by simp
  have rows: "length (new_pos ! i) = D" if "i < N" for i
    using pos [OF that] shapes that by (auto simp: pbest_shapes_def has_shape_nth)
  have shape: "has_shape N D new_pos"
    using len rows by (simp add: has_shapeI)
  show ?thesis
    unfolding r using len shape cost pos by simp
qed

text \<open>
  The theorem at the example swarm: particle 0 improves (5 < 6), particle 1 ties
  (7 = 7) and particle 2 is worse (4 > 3).
\<close>

theorem compute_pbest_spec_witness:
  "pbest_shapes 3 2 sw0 \<and> fst (compute_pbest sw0) = ([[1, 2], [9, 9], [8, 8]], [5, 7, 3])"
proof -
  have h: "pbest_shapes 3 2 sw0"
    by (simp add: sw0_def pbest_shapes_def has_shape_def)
  have v: "fst (compute_pbest sw0) = ([[1, 2], [9, 9], [8, 8]], [5, 7, 3])"
    by code_simp
  show ?thesis
    using compute_pbest_spec [OF h] h v by simp
qed

text \<open>
  Claim C3. For every swarm whose position and velocity have shape (N, D),
  \<^verbatim>\<open>compute_position\<close> without bounds returns the matrix of that shape whose entry
  (i, j) is the sum of the entries (i, j) of position and velocity; with bounds it
  returns what the boundary handler returns on that sum and the bounds, and applies
  nothing else to it.
\<close>

theorem compute_position_spec:
  fixes sw :: "('a::plus, 'c) Swarm"
  assumes p: "has_shape N D (Swarm.position sw)" and v: "has_shape N D (Swarm.velocity sw)"
  shows "has_shape N D (fst (compute_position sw None bh)) \<and>
         (\<forall>i<N. \<forall>j<D. fst (compute_position sw None bh) ! i ! j
                          = Swarm.position sw ! i ! j + Swarm.velocity sw ! i ! j) \<and>
         (\<forall>b. compute_position sw (Some b) bh = bh (fst (compute_position sw None bh)) b sw)"
proof -
  let ?t = "np_add2 (Swarm.position sw) (Swarm.velocity sw)"
  have t: "fst (compute_position sw None bh) = ?t"
    by (simp add: compute_position_def)
  have len: "length ?t = N"
    using p v by (simp add: length_np_add2 has_shape_def)
  have row: "?t ! i = map2 (\<lambda>a b. a + b) (Swarm.position sw ! i) (Swarm.velocity sw ! i)" if "i < N" for i
    using that p v by (simp add: nth_np_add2 has_shape_def)
  have rowlen: "length (?t ! i) = D" if "i < N" for i
    using that row [OF that] has_shape_nth [OF p that] has_shape_nth [OF v that] by simp
  have entry: "?t ! i ! j = Swarm.position sw ! i ! j + Swarm.velocity sw ! i ! j" if "i < N" "j < D" for i j
    using that row [OF that(1)] has_shape_nth [OF p that(1)] has_shape_nth [OF v that(1)] by simp
  have shape: "has_shape N D ?t"
    using len rowlen by (rule has_shapeI)
  have handler: "compute_position sw (Some b) bh = bh ?t b sw" for b
    by (simp add: compute_position_def)
  show ?thesis
    unfolding t using shape entry handler by simp
qed

text \<open>
  The theorem at the example swarm, without bounds and with the bounds (0, 5) and the
  nearest strategy.
\<close>

theorem compute_position_spec_witness:
  "has_shape 3 2 (Swarm.position sw0) \<and> has_shape 3 2 (Swarm.velocity sw0) \<and>
   fst (compute_position sw0 None nearest) = [[2, 3], [3, 4], [4, 8]] \<and>
   fst (compute_position sw0 (Some (0, 5)) nearest) = [[2, 3], [3, 4], [4, 5]]"
proof -
  have p: "has_shape 3 2 (Swarm.position sw0)" and v: "has_shape 3 2 (Swarm.velocity sw0)"
    by (simp_all add: sw0_def has_shape_def)
  have n: "fst (compute_position sw0 None nearest) = [[2, 3], [3, 4], [4, 8]]"
    by (simp add: compute_position_def np_add2_def sw0_def)
  have b: "fst (nearest [[2, 3], [3, 4], [4, 8]] (0, 5) sw0) = [[2, 3], [3, 4], [4, 5]]"
    by (simp add: nearest_def)
  show ?thesis
    using compute_position_spec [OF p v, of nearest] p v n b by simp
qed

text \<open>
  Claim C4. \<^verbatim>\<open>compute_pbest\<close>, and \<^verbatim>\<open>compute_position\<close> when bounds is None, leave
  the swarm as it was: every attribute has the value it had before the call. With
  bounds the swarm is left as the boundary handler leaves it.
\<close>

theorem operators_leave_swarm:
  fixes sw :: "('a::plus, 'c::ord) Swarm"
  shows "snd (compute_pbest sw) = sw \<and> snd (compute_position sw None bh) = sw \<and>
         snd (compute_position sw (Some b) bh)
           = snd (bh (np_add2 (Swarm.position sw) (Swarm.velocity sw)) b sw)"
  by (simp add: compute_pbest_def compute_position_def Let_def)

text \<open>The theorem at the example swarm, with the nearest strategy as handler.\<close>

theorem operators_leave_swarm_witness:
  "snd (compute_pbest sw0) = sw0 \<and> snd (compute_position sw0 None nearest) = sw0 \<and>
   snd (compute_position sw0 (Some (0, 5)) nearest) = sw0"
proof -
  have "snd (nearest (np_add2 (Swarm.position sw0) (Swarm.velocity sw0)) (0, 5) sw0) = sw0"
    by (simp add: nearest_def)
  then show ?thesis
    using operators_leave_swarm [of sw0 nearest "(0, 5)"] by simp
qed









text \<open>
  Claim C10. In sequential mode \<^verbatim>\<open>compute_objective_function\<close> returns exactly what
  the objective function returns on the position matrix, whatever its shape: nothing
  checks that it is a vector with one cost per particle.
\<close>

theorem sequential_returns_objective_value:
  "compute_objective_function sw objective_func None kwargs
     = Some (call objective_func kwargs (Swarm.position sw))"
  by (simp add: compute_objective_function_def)

text \<open>
  The theorem at the example swarm with an objective that returns a single number: the
  number is returned as it is.
\<close>

theorem sequential_returns_objective_value_witness:
  "compute_objective_function sw0 total_cost None () = Some (Inr (Scalar 21))"
proof -
  have "call total_cost () (Swarm.position sw0) = Inr (Scalar 21)"
    by (simp add: total_cost_def sw0_def)
  then show ?thesis
    using sequential_returns_objective_value [of sw0 total_cost "()"] by simp
qed

section \<open>The optimizer\<close>

text \<open>
  Claim C6. When \<^verbatim>\<open>ftol_iter\<close> is not a positive integer, \<^verbatim>\<open>__init__\<close> raises and
  returns no instance. When it is one, the assertion passes and \<^verbatim>\<open>__init__\<close> goes
  on to \<^verbatim>\<open>reset\<close> with the value stored as given. Whenever \<^verbatim>\<open>__init__\<close> returns an
  instance, \<^verbatim>\<open>ftol_iter\<close> was a positive integer and the instance holds that value:
  no value is replaced by another (the latter for an override of \<^verbatim>\<open>_init_swarm\<close>
  that writes the swarm only).
\<close>

theorem ftol_iter_validation:
  "(\<not> positive_integer v \<longrightarrow>
      (\<exists>e. init init_swarm self n d opts clamp pos tol v = Inl e)) \<and>
   (positive_integer v \<longrightarrow>
      init init_swarm self n d opts clamp pos tol v =
        reset init_swarm (self\<lparr>n_particles := n, BaseSwarmOptimizer.dimensions := d,
          velocity_clamp := clamp, swarm_size := (n, d), BaseSwarmOptimizer.options := opts,
          init_pos := pos, ftol := tol, ftol_iter := v\<rparr>)) \<and>
   (\<forall>self'. init init_swarm self n d opts clamp pos tol v = Inr self' \<longrightarrow>
      positive_integer v \<and> (writes_swarm_only init_swarm \<longrightarrow> ftol_iter self' = v))"
proof (intro conjI impI allI)
  assume "\<not> positive_integer v"
  then show "\<exists>e. init init_swarm self n d opts clamp pos tol v = Inl e"
    by (rule not_positive_integer_rejected)
next
  assume "positive_integer v"
  then show "init init_swarm self n d opts clamp pos tol v =
        reset init_swarm (self\<lparr>n_particles := n, BaseSwarmOptimizer.dimensions := d,
          velocity_clamp := clamp, swarm_size := (n, d), BaseSwarmOptimizer.options := opts,
          init_pos := pos, ftol := tol, ftol_iter := v\<rparr>)"
    by (cases v) (simp_all add: init_def Let_def)
next
  fix self'
  assume r: "init init_swarm self n d opts clamp pos tol v = Inr self'"
  show "positive_integer v"
  proof (rule ccontr)
    assume "\<not> positive_integer v"
    from not_positive_integer_rejected [OF this, of init_swarm self n d opts clamp pos tol] r
    show False by simp
  qed
next
  fix self'
  let ?configured = "self\<lparr>n_particles := n, BaseSwarmOptimizer.dimensions := d,
          velocity_clamp := clamp, swarm_size := (n, d), BaseSwarmOptimizer.options := opts,
          init_pos := pos, ftol := tol, ftol_iter := v, cost_history := [],
          mean_pbest_history := [], mean_neighbor_history := [], pos_history := [],
          velocity_history := []\<rparr>"
  assume r: "init init_swarm self n d opts clamp pos tol v = Inr self'"
    and override: "writes_swarm_only init_swarm"
  have "positive_integer v"
  proof (rule ccontr)
    assume "\<not> positive_integer v"
    from not_positive_integer_rejected [OF this, of init_swarm self n d opts clamp pos tol] r
    show False by simp
  qed
  then have "init_swarm ?configured = Inr self'"
    using r by (simp add: positive_integer_accepted)
  with override have "self' = ?configured\<lparr>swarm := swarm self'\<rparr>"
    unfolding writes_swarm_only_def by blast
  then have "ftol_iter self' = ftol_iter (?configured\<lparr>swarm := swarm self'\<rparr>)"
    by simp
  then show "ftol_iter self' = v" by simp
qed

text \<open>
  The theorem at 0, at the float 3.0, at None and at 3.
\<close>

theorem ftol_iter_validation_witness:
  "writes_swarm_only create_sw0 \<and>
   init create_sw0 opt0 10 2 \<lparr>c1 = 1, c2 = 1, w = 1\<rparr> None None 0 (PyInt 0)
     = Inl (AssertionError ''ftol_iter expects an integer value greater than 0'') \<and>
   init create_sw0 opt0 10 2 \<lparr>c1 = 1, c2 = 1, w = 1\<rparr> None None 0 (PyFloat 3)
     = Inl (AssertionError ''ftol_iter expects an integer value greater than 0'') \<and>
   init create_sw0 opt0 10 2 \<lparr>c1 = 1, c2 = 1, w = 1\<rparr> None None 0 PyNone = Inl TypeError \<and>
   (\<exists>self'. init create_sw0 opt0 10 2 \<lparr>c1 = 1, c2 = 1, w = 1\<rparr> None None 0 (PyInt 3) = Inr self' \<and>
      ftol_iter self' = PyInt 3)"
proof -
  have o: "writes_swarm_only create_sw0" by (rule create_sw0_ok)
  have a: "init create_sw0 opt0 10 2 \<lparr>c1 = 1, c2 = 1, w = 1\<rparr> None None 0 (PyInt 0)
     = Inl (AssertionError ''ftol_iter expects an integer value greater than 0'')"
    by (simp add: init_def Let_def)
  have b: "init create_sw0 opt0 10 2 \<lparr>c1 = 1, c2 = 1, w = 1\<rparr> None None 0 (PyFloat 3)
     = Inl (AssertionError ''ftol_iter expects an integer value greater than 0'')"
    by (simp add: init_def Let_def)
  have c: "init create_sw0 opt0 10 2 \<lparr>c1 = 1, c2 = 1, w = 1\<rparr> None None 0 PyNone = Inl TypeError"
    by (simp add: init_def Let_def)
  have d: "\<exists>self'. init create_sw0 opt0 10 2 \<lparr>c1 = 1, c2 = 1, w = 1\<rparr> None None 0 (PyInt 3) = Inr self'"
    by (simp add: init_def reset_def create_sw0_def Let_def)
  show ?thesis
    using ftol_iter_validation [of "PyInt 3" create_sw0 opt0 10 2 "\<lparr>c1 = 1, c2 = 1, w = 1\<rparr>" None None 0]
      o a b c d by blast
qed

text \<open>
  Claim C7. After \<^verbatim>\<open>reset\<close> has returned, the five history lists are empty and
  n\_particles, dimensions, swarm\_size, options, velocity\_clamp, init\_pos, ftol and
  ftol\_iter have the values they had before, whatever the state of the instance was.
  (The override of \<^verbatim>\<open>_init_swarm\<close> is assumed to write the swarm only.)
\<close>

theorem reset_clears_history:
  assumes override: "writes_swarm_only init_swarm" and returns: "reset init_swarm self = Inr self'"
  shows "cost_history self' = [] \<and> mean_pbest_history self' = [] \<and>
         mean_neighbor_history self' = [] \<and> pos_history self' = [] \<and> velocity_history self' = [] \<and>
         n_particles self' = n_particles self \<and>
         BaseSwarmOptimizer.dimensions self' = BaseSwarmOptimizer.dimensions self \<and>
         swarm_size self' = swarm_size self \<and>
         BaseSwarmOptimizer.options self' = BaseSwarmOptimizer.options self \<and>
         velocity_clamp self' = velocity_clamp self \<and> init_pos self' = init_pos self \<and>
         ftol self' = ftol self \<and> ftol_iter self' = ftol_iter self"
proof -
  let ?r = "self\<lparr>cost_history := [], mean_pbest_history := [], mean_neighbor_history := [],
       pos_history := [], velocity_history := [], swarm := swarm self'\<rparr>"
  have e: "self' = ?r" using override returns by (rule reset_frame)
  have "cost_history ?r = [] \<and> mean_pbest_history ?r = [] \<and>
         mean_neighbor_history ?r = [] \<and> pos_history ?r = [] \<and> velocity_history ?r = [] \<and>
         n_particles ?r = n_particles self \<and>
         BaseSwarmOptimizer.dimensions ?r = BaseSwarmOptimizer.dimensions self \<and>
         swarm_size ?r = swarm_size self \<and>
         BaseSwarmOptimizer.options ?r = BaseSwarmOptimizer.options self \<and>
         velocity_clamp ?r = velocity_clamp self \<and> init_pos ?r = init_pos self \<and>
         ftol ?r = ftol self \<and> ftol_iter ?r = ftol_iter self"
    by simp
  then show ?thesis using e by metis
qed

text \<open>
  The theorem at the example optimizer, whose history has two entries.
\<close>

theorem reset_clears_history_witness:
  "writes_swarm_only create_sw0 \<and>
   reset create_sw0 opt0 = Inr (opt0\<lparr>cost_history := [], mean_pbest_history := [],
     mean_neighbor_history := [], pos_history := [], velocity_history := [], swarm := Some sw0\<rparr>) \<and>
   cost_history opt0 = [3, 2]"
proof -
  have o: "writes_swarm_only create_sw0" by (rule create_sw0_ok)
  have r: "reset create_sw0 opt0 = Inr (opt0\<lparr>cost_history := [], mean_pbest_history := [],
     mean_neighbor_history := [], pos_history := [], velocity_history := [], swarm := Some sw0\<rparr>)"
    by (simp add: reset_def create_sw0_def Let_def)
  have h: "cost_history opt0 = [3, 2]" by (simp add: opt0_def)
  show ?thesis
    using reset_clears_history [OF o r] o r h by simp
qed

text \<open>
  Claim C8. \<^verbatim>\<open>_populate_history\<close> appends one entry to each of the five history
  lists, the matching field of the record: each list is the old list followed by that
  field, so it is one longer, ends with the field and begins with the old entries.
\<close>

theorem populate_history_appends:
  "cost_history (populate_history self hist) = cost_history self @ [ToHistory.best_cost hist] \<and>
   mean_pbest_history (populate_history self hist) = mean_pbest_history self @ [mean_pbest_cost hist] \<and>
   mean_neighbor_history (populate_history self hist)
     = mean_neighbor_history self @ [mean_neighbor_cost hist] \<and>
   pos_history (populate_history self hist) = pos_history self @ [ToHistory.position hist] \<and>
   velocity_history (populate_history self hist) = velocity_history self @ [ToHistory.velocity hist] \<and>
   length (cost_history (populate_history self hist)) = length (cost_history self) + 1 \<and>
   length (mean_pbest_history (populate_history self hist)) = length (mean_pbest_history self) + 1 \<and>
   length (mean_neighbor_history (populate_history self hist))
     = length (mean_neighbor_history self) + 1 \<and>
   length (pos_history (populate_history self hist)) = length (pos_history self) + 1 \<and>
   length (velocity_history (populate_history self hist)) = length (velocity_history self) + 1"
  by (simp add: populate_history_def Let_def)

text \<open>The theorem at the example optimizer, whose lists hold two entries each.\<close>

theorem populate_history_appends_witness:
  "cost_history (populate_history opt0 hist0) = [3, 2, 1] \<and>
   mean_pbest_history (populate_history opt0 hist0) = [4, 3, 2] \<and>
   mean_neighbor_history (populate_history opt0 hist0) = [3, 2, 1] \<and>
   pos_history (populate_history opt0 hist0)
     = [[[1, 2], [3, 4], [5, 6]], [[2, 3], [3, 4], [4, 8]], [[2, 3], [3, 4], [4, 5]]] \<and>
   velocity_history (populate_history opt0 hist0)
     = [[[0, 0], [0, 0], [0, 0]], [[1, 1], [0, 0], [-1, 2]], [[0, 0], [0, 0], [0, -3]]]"
  using populate_history_appends [of opt0 hist0]
  by (simp add: opt0_def hist0_def)

end
